theory Spec2Isabelle
  imports Complex_Main
begin

section \<open>Numbers, vectors and errors\<close>

text \<open>
  A JavaScript number is modelled as a real: the claims below are about signs, orderings
  and which quantity goes where, not about rounding. Where the source divides, the model
  says what the division gives when the divisor is 0, an infinity or a NaN, and it stops
  with the outcome \<open>NonFinite\<close> where such a value, which the reals do not have, would be
  stored in the state.

  \<open>Error msg\<close> is a thrown \<^verbatim>\<open>Error(msg)\<close>, \<open>TypeError\<close> the exception of reading a
  property of \<^verbatim>\<open>null\<close> or \<^verbatim>\<open>undefined\<close>.
\<close>

datatype error = Error string | TypeError | NonFinite

text \<open>
  The value of an arithmetic expression that divides. A zero of the model is the positive
  zero: a pointer coordinate, computed as \<^verbatim>\<open>q * 2 - 1\<close> or \<^verbatim>\<open>-q * 2 + 1\<close>, is never the
  negative one.
\<close>

datatype number = Finite real | Infinity | NegativeInfinity | NaN

definition jsQuotient :: "real \<Rightarrow> real \<Rightarrow> number" where
  "jsQuotient a b =
     (if b \<noteq> 0 then Finite (a / b)
      else if 0 < a then Infinity
      else if a < 0 then NegativeInfinity
      else NaN)"

definition jsProduct :: "real \<Rightarrow> number \<Rightarrow> number" where
  "jsProduct a q =
     (case q of
        Finite r \<Rightarrow> Finite (a * r)
      | Infinity \<Rightarrow> (if 0 < a then Infinity else if a < 0 then NegativeInfinity else NaN)
      | NegativeInfinity \<Rightarrow> (if 0 < a then NegativeInfinity else if a < 0 then Infinity else NaN)
      | NaN \<Rightarrow> NaN)"

datatype Vector2 = Vector2 (px: real) (py: real)

datatype Vector3 = Vector3 (vx: real) (vy: real) (vz: real)

section \<open>cvat-canvas/src/typescript/canvasModel.ts\<close>

datatype Mode = IDLE | DRAG | RESIZE | DRAW | EDIT | MERGE | SPLIT | GROUP
  | DRAG_CANVAS | ZOOM_CANVAS

text \<open>The string value of each member of the enum, as the error message interpolates it.\<close>

fun modeString :: "Mode \<Rightarrow> string" where
  "modeString Mode.IDLE = ''idle''"
| "modeString Mode.DRAG = ''drag''"
| "modeString Mode.RESIZE = ''resize''"
| "modeString Mode.DRAW = ''draw''"
| "modeString Mode.EDIT = ''edit''"
| "modeString Mode.MERGE = ''merge''"
| "modeString Mode.SPLIT = ''split''"
| "modeString Mode.GROUP = ''group''"
| "modeString Mode.DRAG_CANVAS = ''drag_canvas''"
| "modeString Mode.ZOOM_CANVAS = ''zoom_canvas''"

datatype UpdateReasons = IMAGE_CHANGED | IMAGE_ZOOMED | IMAGE_FITTED | IMAGE_MOVED
  | GRID_UPDATED | OBJECTS_UPDATED | SHAPE_ACTIVATED | SHAPE_FOCUSED | FITTED_CANVAS
  | DRAW | MERGE | SPLIT | GROUP | SELECT | CANCEL | DRAG_CANVAS | ZOOM_CANVAS

record ActiveElement =
  clientID :: "int option"
  attributeID :: "int option"

text \<open>
  The fields of \<^verbatim>\<open>CanvasModelImpl.data\<close> that \<^verbatim>\<open>activate\<close> reads or writes, and
  \<open>notified\<close>: the reasons passed to \<^verbatim>\<open>this.notify\<close> so far, oldest first.
\<close>

record CanvasModelData =
  activeElement :: ActiveElement
  mode :: Mode
  notified :: "UpdateReasons list"

text \<open>
  Modelled from the spec: \<^verbatim>\<open>MasterImpl.notify\<close> (master.ts is not among the sources).
  "Notifications are synchronous, single-threaded callbacks to subscribed observers; one
  notification per logical state change, carrying a reason tag": a call hands the reason
  to the observers once, which the model records in \<open>notified\<close>.
\<close>

definition notify :: "UpdateReasons \<Rightarrow> CanvasModelData \<Rightarrow> CanvasModelData" where
  "notify reason d = d\<lparr>notified := notified d @ [reason]\<rparr>"

text \<open>
  \<^verbatim>\<open>activate(clientID, attributeID)\<close>. A throw is \<open>Inl\<close> of the error and the data as
  they are when it is thrown; a return is \<open>Inr\<close> of the data.
\<close>

definition activate ::
  "int option \<Rightarrow> int option \<Rightarrow> CanvasModelData \<Rightarrow> (error \<times> CanvasModelData) + CanvasModelData"
where
  "activate cid aid d =
     (if mode d \<noteq> Mode.IDLE \<and> cid \<noteq> None
      then Inl (Error (''Canvas is busy. Action: '' @ modeString (mode d)), d)
      else Inr (notify SHAPE_ACTIVATED
                  (d\<lparr>activeElement := \<lparr>clientID = cid, attributeID = aid\<rparr>\<rparr>)))"

section \<open>cvat-canvas3d/src/typescript/consts.ts\<close>

definition ROTATION_SPEED :: real where
  "ROTATION_SPEED = 80"

section \<open>cvat-canvas3d/src/typescript/canvas3dView.ts: data\<close>

datatype ViewType = PERSPECTIVE | TOP | SIDE | FRONT

text \<open>
  Modelled from the spec: the enum \<^verbatim>\<open>Mode\<close> of canvas3dModel.ts, which is not among the
  sources. The spec names IDLE, DRAW and EDIT/INTERACT; the view also compares the mode
  with DRAG_CANVAS.
\<close>

datatype Mode3d = IDLE | DRAW | EDIT | INTERACT | DRAG_CANVAS

datatype Axis = AxisX | AxisY | AxisZ

text \<open>
  The orientation of a scene-graph object: Euler angles set outright (\<^verbatim>\<open>rotation.set\<close>,
  \<^verbatim>\<open>setRotation\<close>), or an orientation turned by an angle about one of the object's own
  axes (\<^verbatim>\<open>rotateX\<close>, \<^verbatim>\<open>rotateY\<close>, \<^verbatim>\<open>rotateZ\<close>). The turns stay symbolic: the quaternion
  product behind them is the three.js library's.
\<close>

datatype Orientation =
    Euler Vector3
  | Rotated Orientation Axis real

text \<open>
  A mesh, a camera or a reference plane. \<open>parent\<close> is \<open>Some v\<close> while the object is a child
  of the selected cuboid's mesh of view \<open>v\<close>, and \<open>None\<close> while it is not.
\<close>

record Object3D =
  name :: string
  position :: Vector3
  scale :: Vector3
  rotation :: Orientation
  parent :: "ViewType option"

record ObjectState =
  clientID :: int
  lock :: bool
  hidden :: bool
  points :: "real list"

text \<open>
  \<^verbatim>\<open>CuboidModel\<close> (the interface \<^verbatim>\<open>CubeObject\<close>): one mesh for each view. \<open>userData\<close> is
  \<^verbatim>\<open>perspective.userData\<close>, the object state that \<^verbatim>\<open>setupObjects\<close> stores there; \<open>None\<close> is
  the empty object a new mesh has. The helper children of the meshes (handles, edges) are
  not modelled.
\<close>

record CuboidModel =
  perspectiveMesh :: Object3D
  topMesh :: Object3D
  sideMesh :: Object3D
  frontMesh :: Object3D
  userData :: "ObjectState option"

record HTMLCanvasElement =
  rect_left :: real
  rect_top :: real
  clientWidth :: real
  clientHeight :: real
  offsetLeft :: real
  offsetTop :: real
  offsetWidth :: real
  offsetHeight :: real

record MouseEvent =
  clientX :: real
  clientY :: real

text \<open>
  A scene: \<open>cloud\<close> says that the point cloud is among its children, \<open>plane\<close> is the reference
  plane that \<^verbatim>\<open>getObjectByName\<close> finds there. The meshes below the cloud are those of the
  cuboids and are not kept a second time.
\<close>

record Scene =
  cloud :: bool
  plane :: "Object3D option"

record RenderView =
  domElement :: HTMLCanvasElement
  scene :: Scene
  camera :: Object3D
  controls_enabled :: bool
  mouseVector :: Vector2

text \<open>
  \<^verbatim>\<open>this.action\<close>, its nested objects flattened: \<open>resize_helper\<close> is \<^verbatim>\<open>action.resize.helper\<close>.
  \<open>None\<close> is \<^verbatim>\<open>null\<close>, or \<^verbatim>\<open>undefined\<close> for a key that \<^verbatim>\<open>resetActions\<close> leaves out.
\<close>

record Action =
  scan :: "ViewType option"
  detected :: bool
  initialMouseVector :: Vector2
  translation_status :: bool
  translation_helper :: "Vector2 option"
  translation_coordinates :: "Vector3 option"
  rotation_status :: bool
  rotation_helper :: "Vector2 option"
  rotation_screenInit :: "Vector2 option"
  rotation_screenMove :: "Vector2 option"
  resize_status :: bool
  resize_helper :: "Vector2 option"
  resize_initScales :: Vector3
  resize_memScales :: Vector3
  resize_resizeVector :: Vector3

text \<open>
  The detail of a dispatched event: for \<^verbatim>\<open>canvas.edited\<close> the state found and the points,
  for \<^verbatim>\<open>canvas.drawn\<close> the shape type, the frame and the points (the keys of
  \<^verbatim>\<open>drawData.initialState\<close>, spread before \<^verbatim>\<open>points\<close>, are not modelled).
\<close>

datatype Detail =
    NoDetail
  | Edited "ObjectState option" "real list"
  | Drawn string "int option" "real list"

datatype CustomEvent = CustomEvent string Detail

text \<open>
  The view with the parts of the model and of the controller it works on.
  \<open>controller_mode\<close> is \<^verbatim>\<open>this.controller.mode\<close>, \<open>image\<close> says that \<^verbatim>\<open>model.data.image\<close> is
  not null, \<open>dispatched\<close> holds the events given to \<^verbatim>\<open>dispatchEvent\<close>, oldest first,
  \<open>loading\<close> counts the point-cloud loads started whose callback has not run yet, and
  \<open>calls\<close> is the sequence, in the order of execution, of the calls of \<^verbatim>\<open>dispatchEvent\<close>
  and of the other steps of the notification of a changed image.
\<close>

datatype Call = CreateObjectURL | ClearScene | LoaderLoad | RevokeObjectURL
  | DispatchEvent CustomEvent

record Canvas3dViewImpl =
  controller_mode :: Mode3d
  drawData_enabled :: bool
  activeElement_clientID :: "string option"
  imageID :: "int option"
  image :: bool
  objects :: "ObjectState list"
  selected :: "CuboidModel option"
  cube :: CuboidModel
  action :: Action
  views :: "ViewType \<Rightarrow> RenderView"
  dispatched :: "CustomEvent list"
  loading :: nat
  calls :: "Call list"

text \<open>
  What the view takes from outside this file, as parameters. From three.js: the Euler
  angles of an orientation, a position sent through \<^verbatim>\<open>Spherical\<close> and back,
  \<^verbatim>\<open>localToWorld\<close>, the local transform of a child after \<^verbatim>\<open>parent.attach(child)\<close>, the
  orientation in the world of a child of a parent (\<^verbatim>\<open>getWorldQuaternion\<close>) and the
  orientation of an object after \<^verbatim>\<open>lookAt\<close> of a target. From cuboid.ts, which is not among
  the sources: \<^verbatim>\<open>getReferenceCoordinates\<close>. And JavaScript's \<^verbatim>\<open>Number\<close> on a string,
  \<open>None\<close> when the result is no integer.
\<close>

record Library =
  eulerOf :: "Orientation \<Rightarrow> Vector3"
  setFromSpherical :: "Vector3 \<Rightarrow> Vector3"
  localToWorld :: "Object3D \<Rightarrow> Vector3 \<Rightarrow> Vector3"
  attach :: "Object3D \<Rightarrow> Object3D \<Rightarrow> Object3D"
  worldQuaternion :: "Object3D \<Rightarrow> Object3D \<Rightarrow> Orientation"
  lookAt :: "Object3D \<Rightarrow> Vector3 \<Rightarrow> Orientation"
  getReferenceCoordinates :: "CuboidModel \<Rightarrow> ViewType \<Rightarrow> Vector3"
  Number :: "string \<Rightarrow> int option"

text \<open>
  The results of the ray casts of one frame in one view: whether the ray meets a resize
  handle, the rotation handle and the body mesh of the selected cuboid, and its
  intersections with the reference plane of the view, nearest first.
\<close>

record Intersection =
  point :: Vector3
  object :: Object3D

record RayCasts =
  resizeHelpers_hit :: bool
  rotationHelper_hit :: bool
  box_hit :: bool
  plane_intersects :: "Intersection list"

section \<open>cvat-canvas3d/src/typescript/canvas3dView.ts: operations\<close>

text \<open>Sequencing: a step that throws ends the handler.\<close>

definition andThen :: "error + 'a \<Rightarrow> ('a \<Rightarrow> error + 'b) \<Rightarrow> error + 'b" where
  "andThen r f = (case r of Inl e \<Rightarrow> Inl e | Inr a \<Rightarrow> f a)"

text \<open>\<^verbatim>\<open>cuboid[view]\<close>, and one change made to the mesh of every view.\<close>

fun mesh :: "CuboidModel \<Rightarrow> ViewType \<Rightarrow> Object3D" where
  "mesh c PERSPECTIVE = perspectiveMesh c"
| "mesh c TOP = topMesh c"
| "mesh c SIDE = sideMesh c"
| "mesh c FRONT = frontMesh c"

definition eachMesh :: "(Object3D \<Rightarrow> Object3D) \<Rightarrow> CuboidModel \<Rightarrow> CuboidModel" where
  "eachMesh f c =
     c\<lparr>perspectiveMesh := f (perspectiveMesh c), topMesh := f (topMesh c),
       sideMesh := f (sideMesh c), frontMesh := f (frontMesh c)\<rparr>"

text \<open>
  Modelled from the spec: \<^verbatim>\<open>CuboidModel.setScale\<close> (cuboid.ts is not among the sources).
  The four meshes of an object are "geometrically identical" and "kept in sync": the scale
  is set on each of them.
\<close>

definition setScale :: "real \<Rightarrow> real \<Rightarrow> real \<Rightarrow> CuboidModel \<Rightarrow> CuboidModel" where
  "setScale x y z c = eachMesh (\<lambda>m. m\<lparr>scale := Vector3 x y z\<rparr>) c"

definition updateView :: "ViewType \<Rightarrow> (RenderView \<Rightarrow> RenderView) \<Rightarrow> Canvas3dViewImpl \<Rightarrow> Canvas3dViewImpl" where
  "updateView v f s = s\<lparr>views := (views s)(v := f (views s v))\<rparr>"

definition dispatchEvent :: "CustomEvent \<Rightarrow> Canvas3dViewImpl \<Rightarrow> Canvas3dViewImpl" where
  "dispatchEvent e s =
     s\<lparr>dispatched := dispatched s @ [e], calls := calls s @ [DispatchEvent e]\<rparr>"

text \<open>
  The pointer in normalized device coordinates, as \<^verbatim>\<open>startAction\<close> and \<^verbatim>\<open>moveAction\<close>
  compute it. Both divide by the client size of the canvas: on a canvas of width or height
  0 the result is no real number.
\<close>

definition pointerVector :: "HTMLCanvasElement \<Rightarrow> MouseEvent \<Rightarrow> Vector2" where
  "pointerVector canvas event =
     Vector2 (((clientX event - rect_left canvas) / clientWidth canvas) * 2 - 1)
             (- ((clientY event - rect_top canvas) / clientHeight canvas) * 2 + 1)"

definition selectable :: "Canvas3dViewImpl \<Rightarrow> bool" where
  "selectable s =
     (case selected s of
        None \<Rightarrow> False
      | Some c \<Rightarrow> (case userData c of
                     None \<Rightarrow> True
                   | Some u \<Rightarrow> \<not> lock u \<and> \<not> hidden u))"

definition startAction :: "ViewType \<Rightarrow> MouseEvent \<Rightarrow> Canvas3dViewImpl \<Rightarrow> error + Canvas3dViewImpl" where
  "startAction view event s =
     (let canvas = domElement (views s view) in
      if clientWidth canvas = 0 \<or> clientHeight canvas = 0 then Inl NonFinite
      else
        let s1 = updateView view (\<lambda>rv. rv\<lparr>mouseVector := pointerVector canvas event\<rparr>) s;
            s2 = s1\<lparr>action := (action s1)
                   \<lparr>rotation_screenInit := Some (Vector2 (clientX event) (clientY event)),
                    rotation_screenMove := Some (Vector2 (clientX event) (clientY event))\<rparr>\<rparr>
        in if selectable s2
           then Inr (s2\<lparr>action := (action s2)\<lparr>scan := Some view\<rparr>\<rparr>)
           else Inr s2)"

definition moveAction :: "ViewType \<Rightarrow> MouseEvent \<Rightarrow> Canvas3dViewImpl \<Rightarrow> error + Canvas3dViewImpl" where
  "moveAction view event s =
     (let canvas = domElement (views s view) in
      if clientWidth canvas = 0 \<or> clientHeight canvas = 0 then Inl NonFinite
      else
        let s1 = updateView view (\<lambda>rv. rv\<lparr>mouseVector := pointerVector canvas event\<rparr>) s
        in Inr (s1\<lparr>action := (action s1)
                  \<lparr>rotation_screenMove := Some (Vector2 (clientX event) (clientY event))\<rparr>\<rparr>))"

definition setPlanePosition :: "Vector3 \<Rightarrow> RenderView \<Rightarrow> RenderView" where
  "setPlanePosition coordinates rv =
     (case plane (scene rv) of
        None \<Rightarrow> rv
      | Some p \<Rightarrow> rv\<lparr>scene := (scene rv)\<lparr>plane := Some (p\<lparr>position := coordinates\<rparr>)\<rparr>\<rparr>)"

definition translateReferencePlane :: "Vector3 \<Rightarrow> Canvas3dViewImpl \<Rightarrow> Canvas3dViewImpl" where
  "translateReferencePlane coordinates s =
     updateView FRONT (setPlanePosition coordinates)
       (updateView SIDE (setPlanePosition coordinates)
          (updateView TOP (setPlanePosition coordinates) s))"

definition setCameraPosition :: "Vector3 \<Rightarrow> RenderView \<Rightarrow> RenderView" where
  "setCameraPosition p rv = rv\<lparr>camera := (camera rv)\<lparr>position := p\<rparr>\<rparr>"

definition adjustPerspectiveCameras :: "Library \<Rightarrow> Canvas3dViewImpl \<Rightarrow> error + Canvas3dViewImpl" where
  "adjustPerspectiveCameras lib s =
     (case selected s of
        None \<Rightarrow> Inl TypeError
      | Some c \<Rightarrow>
          Inr (updateView FRONT
                 (setCameraPosition (setFromSpherical lib (getReferenceCoordinates lib c FRONT)))
              (updateView SIDE
                 (setCameraPosition (setFromSpherical lib (getReferenceCoordinates lib c SIDE)))
              (updateView TOP
                 (setCameraPosition (setFromSpherical lib (getReferenceCoordinates lib c TOP)))
                 s))))"

definition moveObject :: "Vector3 \<Rightarrow> Canvas3dViewImpl \<Rightarrow> error + Canvas3dViewImpl" where
  "moveObject coordinates s =
     (case selected s of
        None \<Rightarrow> Inl TypeError
      | Some c \<Rightarrow> Inr (s\<lparr>selected := Some (eachMesh (\<lambda>m. m\<lparr>position := coordinates\<rparr>) c)\<rparr>))"

text \<open>
  \<^verbatim>\<open>intersectObjects\<close> is given the reference plane of the view: without one the library
  reads a property of \<^verbatim>\<open>undefined\<close>.
\<close>

definition renderTranslateAction :: "ViewType \<Rightarrow> RayCasts \<Rightarrow> Canvas3dViewImpl \<Rightarrow> error + Canvas3dViewImpl" where
  "renderTranslateAction view rays s =
     (case plane (scene (views s view)) of
        None \<Rightarrow> Inl TypeError
      | Some _ \<Rightarrow>
          (case plane_intersects rays of
             [] \<Rightarrow> Inr s
           | i # _ \<Rightarrow>
               moveObject (point i)
                 (s\<lparr>action := (action s)\<lparr>translation_coordinates := Some (point i)\<rparr>\<rparr>)))"

text \<open>
  One scale of \<^verbatim>\<open>renderResizeAction\<close>: \<^verbatim>\<open>scaleInit * (currentPos / initPos)\<close>, replaced by
  0.2 when it is less than 0. The quotient is an infinity or a NaN when the gesture
  started at a pointer coordinate 0; no NaN is less than 0.
\<close>

definition resizedScale :: "real \<Rightarrow> real \<Rightarrow> real \<Rightarrow> number" where
  "resizedScale scaleInit currentPos initPos =
     (case jsProduct scaleInit (jsQuotient currentPos initPos) of
        Finite r \<Rightarrow> Finite (if r < 0 then 0.2 else r)
      | NegativeInfinity \<Rightarrow> Finite 0.2
      | Infinity \<Rightarrow> Infinity
      | NaN \<Rightarrow> NaN)"

text \<open>
  \<^verbatim>\<open>renderResizeAction\<close>. With a scale that is an infinity or a NaN the code goes on and
  stores it; the model stops there. \<^verbatim>\<open>setSelectedChildScale\<close> rescales helper children
  only.
\<close>

definition renderResizeAction ::
  "Library \<Rightarrow> ViewType \<Rightarrow> RayCasts \<Rightarrow> Canvas3dViewImpl \<Rightarrow> error + Canvas3dViewImpl"
where
  "renderResizeAction lib view rays s =
     (case plane (scene (views s view)) of
        None \<Rightarrow> Inl TypeError
      | Some _ \<Rightarrow>
     (case plane_intersects rays of
        [] \<Rightarrow> Inr s
      | i # _ \<Rightarrow>
     (case resize_helper (action s) of
        None \<Rightarrow> Inl TypeError
      | Some helper \<Rightarrow>
     (case selected s of
        None \<Rightarrow> Inl TypeError
      | Some c \<Rightarrow>
          let a = action s;
              scaleInitX = vx (resize_initScales a);
              scaleInitY = vy (resize_initScales a);
              scaleInitZ = vz (resize_initScales a);
              scaleMemX = vx (resize_memScales a);
              scaleMemY = vy (resize_memScales a);
              scaleMemZ = vz (resize_memScales a);
              initPosX = px helper;
              initPosY = py helper;
              currentPosX = px (mouseVector (views s view));
              currentPosY = py (mouseVector (views s view));
              resizeVector = resize_resizeVector a
          in andThen
            (case view of
               TOP \<Rightarrow>
                 (case resizedScale scaleInitX currentPosX initPosX of
                    Finite y \<Rightarrow>
                 (case resizedScale scaleInitY currentPosY initPosY of
                    Finite x \<Rightarrow>
                   let differenceX = y / 2 - scaleMemX / 2;
                       differenceY = x / 2 - scaleMemY / 2;
                       differenceOpX = ((currentPosX > 0 \<and> currentPosY < 0)
                                        \<or> (currentPosX > 0 \<and> currentPosY > 0));
                       differenceOpY = ((currentPosX < 0 \<and> currentPosY < 0)
                                        \<or> (currentPosX < 0 \<and> currentPosY > 0))
                   in Inr (s\<lparr>selected := Some (setScale y x (vz (scale (topMesh c))) c),
                             action := a
                               \<lparr>resize_resizeVector :=
                                  Vector3
                                    (vx resizeVector + (if differenceOpX then differenceX else - differenceX))
                                    (vy resizeVector + (if differenceOpY then differenceY else - differenceY))
                                    (vz resizeVector),
                                resize_memScales := Vector3 y x scaleMemZ\<rparr>\<rparr>)
                  | _ \<Rightarrow> Inl NonFinite)
                  | _ \<Rightarrow> Inl NonFinite)
             | SIDE \<Rightarrow>
                 (case resizedScale scaleInitX currentPosX initPosX of
                    Finite x \<Rightarrow>
                 (case resizedScale scaleInitZ currentPosY initPosY of
                    Finite z \<Rightarrow>
                   let differenceX = x / 2 - scaleMemX / 2;
                       differenceY = z / 2 - scaleMemZ / 2
                   in Inr (s\<lparr>selected := Some (setScale x (vy (scale (topMesh c))) z c),
                             action := a
                               \<lparr>resize_resizeVector :=
                                  (if currentPosX > 0 \<and> currentPosY < 0
                                   then Vector3 (vx resizeVector + differenceX) (vy resizeVector - differenceY) (vz resizeVector)
                                   else if currentPosX > 0 \<and> currentPosY > 0
                                   then Vector3 (vx resizeVector + differenceX) (vy resizeVector + differenceY) (vz resizeVector)
                                   else if currentPosX < 0 \<and> currentPosY < 0
                                   then Vector3 (vx resizeVector - differenceX) (vy resizeVector - differenceY) (vz resizeVector)
                                   else if currentPosX < 0 \<and> currentPosY > 0
                                   then Vector3 (vx resizeVector - differenceX) (vy resizeVector + differenceY) (vz resizeVector)
                                   else resizeVector),
                                resize_memScales := Vector3 x scaleMemY z\<rparr>\<rparr>)
                  | _ \<Rightarrow> Inl NonFinite)
                  | _ \<Rightarrow> Inl NonFinite)
             | FRONT \<Rightarrow>
                 (case resizedScale scaleInitY currentPosX initPosX of
                    Finite y \<Rightarrow>
                 (case resizedScale scaleInitZ currentPosY initPosY of
                    Finite z \<Rightarrow>
                   let differenceX = z / 2 - scaleMemY / 2;
                       differenceY = y / 2 - scaleMemZ / 2
                   in Inr (s\<lparr>selected := Some (setScale (vx (scale (topMesh c))) y z c),
                             action := a
                               \<lparr>resize_resizeVector :=
                                  (if currentPosX > 0 \<and> currentPosY < 0
                                   then Vector3 (vx resizeVector + differenceX) (vy resizeVector + differenceY) (vz resizeVector)
                                   else if currentPosX > 0 \<and> currentPosY > 0
                                   then Vector3 (vx resizeVector - differenceX) (vy resizeVector + differenceY) (vz resizeVector)
                                   else if currentPosX < 0 \<and> currentPosY < 0
                                   then Vector3 (vx resizeVector + differenceX) (vy resizeVector - differenceY) (vz resizeVector)
                                   else if currentPosX < 0 \<and> currentPosY > 0
                                   then Vector3 (vx resizeVector - differenceX) (vy resizeVector - differenceY) (vz resizeVector)
                                   else resizeVector),
                                resize_memScales := Vector3 scaleMemX z y\<rparr>\<rparr>)
                  | _ \<Rightarrow> Inl NonFinite)
                  | _ \<Rightarrow> Inl NonFinite)
             | PERSPECTIVE \<Rightarrow> Inr s)
            (\<lambda>s1. andThen
                    (moveObject (localToWorld lib (object i) (resize_resizeVector (action s1))) s1)
                    (adjustPerspectiveCameras lib))))))"

definition isLeft :: "Vector2 \<Rightarrow> Vector2 \<Rightarrow> Vector2 \<Rightarrow> bool" where
  "isLeft a b c = ((px b - px a) * (py c - py a) - (py b - py a) * (px c - px a) > 0)"

definition rotateOnAxis :: "Axis \<Rightarrow> real \<Rightarrow> Object3D \<Rightarrow> Object3D" where
  "rotateOnAxis axis angle m = m\<lparr>rotation := Rotated (rotation m) axis angle\<rparr>"

definition rotateCamera :: "real \<Rightarrow> ViewType \<Rightarrow> Canvas3dViewImpl \<Rightarrow> Canvas3dViewImpl" where
  "rotateCamera direction view s =
     (case view of
        TOP \<Rightarrow> updateView TOP (\<lambda>rv. rv\<lparr>camera := rotateOnAxis AxisZ direction (camera rv)\<rparr>) s
      | FRONT \<Rightarrow> updateView FRONT (\<lambda>rv. rv\<lparr>camera := rotateOnAxis AxisZ direction (camera rv)\<rparr>) s
      | SIDE \<Rightarrow> updateView SIDE (\<lambda>rv. rv\<lparr>camera := rotateOnAxis AxisZ direction (camera rv)\<rparr>) s
      | PERSPECTIVE \<Rightarrow> s)"

text \<open>
  \<^verbatim>\<open>rotateCube(instance, direction, view)\<close>, for the instance it is called with, the
  selected cuboid: the same turn on each of its four meshes, then \<^verbatim>\<open>rotateCamera\<close>.
\<close>

definition rotateInstance :: "Axis \<Rightarrow> real \<Rightarrow> Canvas3dViewImpl \<Rightarrow> error + Canvas3dViewImpl" where
  "rotateInstance axis direction s =
     (case selected s of
        None \<Rightarrow> Inl TypeError
      | Some instance \<Rightarrow>
          Inr (s\<lparr>selected := Some (eachMesh (rotateOnAxis axis direction) instance)\<rparr>))"

definition rotateCube :: "real \<Rightarrow> ViewType \<Rightarrow> Canvas3dViewImpl \<Rightarrow> error + Canvas3dViewImpl" where
  "rotateCube direction view s =
     (case view of
        TOP \<Rightarrow> andThen (rotateInstance AxisZ direction s) (\<lambda>s1. Inr (rotateCamera direction view s1))
      | FRONT \<Rightarrow> andThen (rotateInstance AxisX direction s) (\<lambda>s1. Inr (rotateCamera direction view s1))
      | SIDE \<Rightarrow> andThen (rotateInstance AxisY direction s) (\<lambda>s1. Inr (rotateCamera direction view s1))
      | PERSPECTIVE \<Rightarrow> Inr s)"

text \<open>\<^verbatim>\<open>mesh.attach(camera)\<close>: the camera becomes a child of the mesh of view \<open>v\<close>.\<close>

definition attachTo :: "Library \<Rightarrow> CuboidModel \<Rightarrow> ViewType \<Rightarrow> Canvas3dViewImpl \<Rightarrow> Canvas3dViewImpl" where
  "attachTo lib c v s =
     updateView v (\<lambda>rv. rv\<lparr>camera := (attach lib (mesh c v) (camera rv))\<lparr>parent := Some v\<rparr>\<rparr>) s"

definition attachCamera :: "Library \<Rightarrow> ViewType \<Rightarrow> Canvas3dViewImpl \<Rightarrow> error + Canvas3dViewImpl" where
  "attachCamera lib view s =
     (case view of
        PERSPECTIVE \<Rightarrow> Inr s
      | _ \<Rightarrow>
          (case selected s of
             None \<Rightarrow> Inl TypeError
           | Some c \<Rightarrow>
               (case view of
                  TOP \<Rightarrow> Inr (attachTo lib c FRONT (attachTo lib c SIDE s))
                | SIDE \<Rightarrow> Inr (attachTo lib c TOP (attachTo lib c FRONT s))
                | FRONT \<Rightarrow> Inr (attachTo lib c TOP (attachTo lib c SIDE s))
                | PERSPECTIVE \<Rightarrow> Inr s)))"

text \<open>
  The parts of \<^verbatim>\<open>detachCamera\<close>. For the side and the front camera: the orientation in the
  world is read from the camera as a child of its mesh (a \<^verbatim>\<open>TypeError\<close> when it is no
  child), the camera leaves the mesh, is placed, looks at the mesh and is given the
  orientation read. For the top camera: it leaves the mesh if it is a child, is placed,
  looks at the mesh and is given the rotation of the mesh.
\<close>

definition detachOrbiting :: "Library \<Rightarrow> Vector3 \<Rightarrow> Object3D \<Rightarrow> ViewType \<Rightarrow> Canvas3dViewImpl \<Rightarrow> error + Canvas3dViewImpl" where
  "detachOrbiting lib spherical target v s =
     (let cam = camera (views s v) in
      if parent cam \<noteq> Some v then Inl TypeError
      else
        let camRotation = worldQuaternion lib target cam;
            cam1 = cam\<lparr>parent := None\<rparr>;
            cam2 = cam1\<lparr>position := spherical\<rparr>;
            cam3 = cam2\<lparr>rotation := lookAt lib cam2 (position target)\<rparr>;
            cam4 = cam3\<lparr>rotation := camRotation\<rparr>;
            cam5 = cam4\<lparr>scale := Vector3 1 1 1\<rparr>
        in Inr (updateView v (\<lambda>rv. rv\<lparr>camera := cam5\<rparr>) s))"

definition detachTop :: "Library \<Rightarrow> Vector3 \<Rightarrow> Object3D \<Rightarrow> Canvas3dViewImpl \<Rightarrow> Canvas3dViewImpl" where
  "detachTop lib spherical target s =
     (let cam = camera (views s TOP);
          cam1 = (if parent cam = Some TOP then cam\<lparr>parent := None\<rparr> else cam);
          cam2 = cam1\<lparr>position := spherical\<rparr>;
          cam3 = cam2\<lparr>rotation := lookAt lib cam2 (position target)\<rparr>;
          cam4 = cam3\<lparr>rotation := rotation target\<rparr>;
          cam5 = cam4\<lparr>scale := Vector3 1 1 1\<rparr>
      in updateView TOP (\<lambda>rv. rv\<lparr>camera := cam5\<rparr>) s)"

text \<open>
  The Euler angles of an orientation, and those read from \<^verbatim>\<open>object.rotation\<close>: angles that
  were set are read back as they are, the others are the library's.
\<close>

definition eulerAngles :: "Library \<Rightarrow> Orientation \<Rightarrow> Vector3" where
  "eulerAngles lib r = (case r of Euler v \<Rightarrow> v | _ \<Rightarrow> eulerOf lib r)"

definition rotationOf :: "Library \<Rightarrow> Object3D \<Rightarrow> Vector3" where
  "rotationOf lib m = eulerAngles lib (rotation m)"

text \<open>
  The default branch sets one Euler angle of a camera that looks at its mesh: the \<open>z\<close> angle
  becomes the given angle of the reference plane of the view.
\<close>

definition placeLooking :: "Library \<Rightarrow> Vector3 \<Rightarrow> Object3D \<Rightarrow> real \<Rightarrow> ViewType \<Rightarrow> Canvas3dViewImpl \<Rightarrow> Canvas3dViewImpl" where
  "placeLooking lib spherical target angle v s =
     (let cam = camera (views s v);
          cam1 = cam\<lparr>position := spherical\<rparr>;
          looking = eulerAngles lib (lookAt lib cam1 (position target));
          cam2 = cam1\<lparr>rotation := Euler (Vector3 (vx looking) (vy looking) angle)\<rparr>;
          cam3 = cam2\<lparr>scale := Vector3 1 1 1\<rparr>
      in updateView v (\<lambda>rv. rv\<lparr>camera := cam3\<rparr>) s)"

definition detachCamera :: "Library \<Rightarrow> ViewType \<Rightarrow> Canvas3dViewImpl \<Rightarrow> error + Canvas3dViewImpl" where
  "detachCamera lib view s =
     (case selected s of
        None \<Rightarrow> Inl TypeError
      | Some c \<Rightarrow>
          let sphericaltop = setFromSpherical lib (getReferenceCoordinates lib c TOP);
              sphericalside = setFromSpherical lib (getReferenceCoordinates lib c SIDE);
              sphericalfront = setFromSpherical lib (getReferenceCoordinates lib c FRONT);
              objectSideView = sideMesh c;
              objectFrontView = frontMesh c;
              objectTopView = topMesh c
          in (case view of
               TOP \<Rightarrow>
                 andThen (detachOrbiting lib sphericalside objectSideView SIDE s)
                   (detachOrbiting lib sphericalfront objectFrontView FRONT)
             | SIDE \<Rightarrow>
                 andThen (detachOrbiting lib sphericalfront objectFrontView FRONT s)
                   (\<lambda>s1. Inr (detachTop lib sphericaltop objectTopView s1))
             | FRONT \<Rightarrow>
                 andThen (detachOrbiting lib sphericalside objectSideView SIDE s)
                   (\<lambda>s1. Inr (detachTop lib sphericaltop objectTopView s1))
             | PERSPECTIVE \<Rightarrow>
                 (case plane (scene (views s SIDE)) of
                    None \<Rightarrow> Inl TypeError
                  | Some sidePlane \<Rightarrow>
                      let s1 = placeLooking lib sphericalside objectSideView
                                 (vz (rotationOf lib sidePlane)) SIDE s;
                          top0 = camera (views s1 TOP);
                          top1 = top0\<lparr>position := sphericaltop\<rparr>;
                          top2 = top1\<lparr>rotation := lookAt lib top1 (position objectTopView)\<rparr>;
                          top3 = top2\<lparr>rotation := rotation objectTopView\<rparr>;
                          top4 = top3\<lparr>scale := Vector3 1 1 1\<rparr>;
                          s2 = updateView TOP (\<lambda>rv. rv\<lparr>camera := top4\<rparr>) s1
                      in (case plane (scene (views s2 FRONT)) of
                            None \<Rightarrow> Inl TypeError
                          | Some frontPlane \<Rightarrow>
                              Inr (placeLooking lib sphericalfront objectFrontView
                                     (vx (rotationOf lib frontPlane)) FRONT s2)))))"

definition turnPlane :: "ViewType \<Rightarrow> Axis \<Rightarrow> real \<Rightarrow> Canvas3dViewImpl \<Rightarrow> error + Canvas3dViewImpl" where
  "turnPlane v axis angle s =
     (case plane (scene (views s v)) of
        None \<Rightarrow> Inl TypeError
      | Some p \<Rightarrow>
          Inr (updateView v
                 (\<lambda>rv. rv\<lparr>scene := (scene rv)\<lparr>plane := Some (rotateOnAxis axis angle p)\<rparr>\<rparr>) s))"

text \<open>
  The plane that the default branch of \<^verbatim>\<open>rotatePlane\<close> builds for a view: the old plane is
  made a child of the mesh with a fixed rotation, its orientation in the world is read
  and given, as Euler angles, to a new plane; the old plane leaves the scene.
\<close>

definition rebuiltPlane :: "Library \<Rightarrow> string \<Rightarrow> Vector3 \<Rightarrow> Object3D \<Rightarrow> Object3D \<Rightarrow> Object3D" where
  "rebuiltPlane lib nm fixed object3d oldPlane =
     \<lparr>name = nm, position = Vector3 0 0 0, scale = Vector3 1 1 1,
      rotation = Euler (eulerAngles lib
                   (worldQuaternion lib object3d (oldPlane\<lparr>rotation := Euler fixed\<rparr>))),
      parent = None\<rparr>"

definition rotatePlane :: "Library \<Rightarrow> real \<Rightarrow> ViewType \<Rightarrow> Canvas3dViewImpl \<Rightarrow> error + Canvas3dViewImpl" where
  "rotatePlane lib direction view s =
     (case view of
        TOP \<Rightarrow>
          andThen (turnPlane TOP AxisZ direction s)
            (\<lambda>s1. andThen (turnPlane SIDE AxisY direction s1)
               (turnPlane FRONT AxisX (- direction)))
      | SIDE \<Rightarrow>
          andThen (turnPlane TOP AxisY direction s)
            (\<lambda>s1. andThen (turnPlane SIDE AxisZ direction s1)
               (turnPlane FRONT AxisY direction))
      | FRONT \<Rightarrow>
          andThen (turnPlane TOP AxisX direction s)
            (\<lambda>s1. andThen (turnPlane SIDE AxisX (- direction) s1)
               (turnPlane FRONT AxisZ direction))
      | PERSPECTIVE \<Rightarrow>
          (case selected s of
             None \<Rightarrow> Inl TypeError
           | Some c \<Rightarrow>
          (case plane (scene (views s TOP)) of
             None \<Rightarrow> Inl TypeError
           | Some sceneTopPlane \<Rightarrow>
          (case plane (scene (views s SIDE)) of
             None \<Rightarrow> Inl TypeError
           | Some sceneSidePlane \<Rightarrow>
          (case plane (scene (views s FRONT)) of
             None \<Rightarrow> Inl TypeError
           | Some sceneFrontPlane \<Rightarrow>
               let planeTop = rebuiltPlane lib ''topPlane'' (Vector3 0 0 0)
                                (topMesh c) sceneTopPlane;
                   planeSide = rebuiltPlane lib ''sidePlane'' (Vector3 (- pi / 2) (pi / 2000) pi)
                                (sideMesh c) sceneSidePlane;
                   planeFront = rebuiltPlane lib ''frontPlane'' (Vector3 0 (pi / 2) 0)
                                (frontMesh c) sceneFrontPlane;
                   s1 = updateView TOP (\<lambda>rv. rv\<lparr>scene := (scene rv)\<lparr>plane := Some planeTop\<rparr>\<rparr>) s;
                   s2 = updateView SIDE (\<lambda>rv. rv\<lparr>scene := (scene rv)\<lparr>plane := Some planeSide\<rparr>\<rparr>) s1;
                   s3 = updateView FRONT (\<lambda>rv. rv\<lparr>scene := (scene rv)\<lparr>plane := Some planeFront\<rparr>\<rparr>) s2
               in Inr (translateReferencePlane (position (topMesh c)) s3))))))"

definition renderRotateAction :: "Library \<Rightarrow> ViewType \<Rightarrow> Canvas3dViewImpl \<Rightarrow> error + Canvas3dViewImpl" where
  "renderRotateAction lib view s =
     (let rotationSpeed = pi / ROTATION_SPEED;
          canvas = domElement (views s view);
          canvasCentre = Vector2 (offsetLeft canvas + offsetWidth canvas / 2)
                                 (offsetTop canvas + offsetHeight canvas / 2)
      in case rotation_screenInit (action s) of
           None \<Rightarrow> Inl TypeError
         | Some screenInit \<Rightarrow>
        (case rotation_screenMove (action s) of
           None \<Rightarrow> Inl TypeError
         | Some screenMove \<Rightarrow>
             if px screenInit = px screenMove \<and> py screenInit = py screenMove then Inr s
             else
               andThen
                 (if isLeft canvasCentre screenInit screenMove
                  then andThen (rotateCube (- rotationSpeed) view s)
                         (rotatePlane lib (- rotationSpeed) view)
                  else andThen (rotateCube rotationSpeed view s)
                         (rotatePlane lib rotationSpeed view))
                 (\<lambda>s1. case rotation_helper (action s1) of
                          None \<Rightarrow> Inl TypeError
                        | Some helper \<Rightarrow>
                            Inr (s1\<lparr>action := (action s1)
                                   \<lparr>rotation_helper :=
                                      Some (Vector2 (px screenMove) (py screenMove))\<rparr>\<rparr>))))"

definition disableControls :: "Canvas3dViewImpl \<Rightarrow> Canvas3dViewImpl" where
  "disableControls s =
     updateView FRONT (\<lambda>rv. rv\<lparr>controls_enabled := False\<rparr>)
       (updateView SIDE (\<lambda>rv. rv\<lparr>controls_enabled := False\<rparr>)
          (updateView TOP (\<lambda>rv. rv\<lparr>controls_enabled := False\<rparr>) s))"

definition initiateAction :: "Library \<Rightarrow> ViewType \<Rightarrow> RayCasts \<Rightarrow> Canvas3dViewImpl \<Rightarrow> error + Canvas3dViewImpl" where
  "initiateAction lib view rays s =
     (case selected s of
        None \<Rightarrow> Inl TypeError
      | Some c \<Rightarrow>
          if resizeHelpers_hit rays then
            Inr (disableControls
                   (s\<lparr>action := (action s)
                      \<lparr>resize_helper := Some (mouseVector (views s view)),
                       resize_status := True,
                       detected := True,
                       resize_initScales := scale (mesh c view),
                       resize_memScales := scale (mesh c view),
                       resize_resizeVector := Vector3 0 0 0\<rparr>\<rparr>))
          else if rotationHelper_hit rays then
            attachCamera lib view
              (disableControls
                 (s\<lparr>action := (action s)
                    \<lparr>rotation_helper := Some (mouseVector (views s view)),
                     rotation_status := True,
                     detected := True\<rparr>\<rparr>))
          else if box_hit rays then
            Inr (disableControls
                   (s\<lparr>action := (action s)
                      \<lparr>translation_helper := Some (mouseVector (views s view)),
                       translation_status := True,
                       detected := True\<rparr>\<rparr>))
          else Inr s)"

text \<open>
  The point array of an object: position, rotation and scale of a mesh, then seven zeros.
  Both the double-click handler and \<^verbatim>\<open>resetActions\<close> write this literal.
\<close>

definition pointsOf :: "Library \<Rightarrow> Object3D \<Rightarrow> real list" where
  "pointsOf lib m =
     (let x = vx (position m); y = vy (position m); z = vz (position m);
          width = vx (scale m); height = vy (scale m); depth = vz (scale m);
          rotationX = vx (rotationOf lib m);
          rotationY = vy (rotationOf lib m);
          rotationZ = vz (rotationOf lib m)
      in [x, y, z, rotationX, rotationY, rotationZ, width, height, depth, 0, 0, 0, 0, 0, 0, 0])"

text \<open>
  \<^verbatim>\<open>resetActions\<close>, the handler of mouseup in the three orthographic views. The name of a
  mesh is the clientID as a string; \<^verbatim>\<open>Number\<close> reads it back.
\<close>

definition resetActions :: "Library \<Rightarrow> Canvas3dViewImpl \<Rightarrow> error + Canvas3dViewImpl" where
  "resetActions lib s =
     (if \<not> detected (action s) then Inr s
      else
        (case scan (action s) of
           None \<Rightarrow> Inl TypeError
         | Some sc \<Rightarrow>
        (case selected s of
           None \<Rightarrow> Inl TypeError
         | Some c \<Rightarrow>
             let m = mesh c sc;
                 points = pointsOf lib m;
                 state = (case filter (\<lambda>st. Some (ObjectState.clientID st) = Number lib (name m))
                                 (objects s) of
                            [] \<Rightarrow> None
                          | st # _ \<Rightarrow> Some st);
                 s1 = dispatchEvent (CustomEvent ''canvas.edited'' (Edited state points)) s
             in andThen
                  (if rotation_status (action s1) then detachCamera lib sc s1 else Inr s1)
                  (\<lambda>s2. andThen (adjustPerspectiveCameras lib s2)
                     (\<lambda>s3. let s4 = translateReferencePlane (position m) s3
                           in Inr (s4\<lparr>action := (action s4)
                                     \<lparr>scan := None,
                                      detected := False,
                                      translation_status := False,
                                      translation_helper := None,
                                      translation_coordinates := None,
                                      rotation_status := False,
                                      rotation_helper := None,
                                      rotation_screenInit := None,
                                      rotation_screenMove := None,
                                      resize_status := False,
                                      resize_helper := None\<rparr>\<rparr>))))))"

text \<open>The handler of a double click in the perspective view.\<close>

definition dblclick :: "Library \<Rightarrow> Canvas3dViewImpl \<Rightarrow> Canvas3dViewImpl" where
  "dblclick lib s =
     (if controller_mode s \<noteq> Mode3d.DRAW then s
      else
        let s1 = s\<lparr>drawData_enabled := False\<rparr>;
            s2 = s1\<lparr>controller_mode := Mode3d.IDLE\<rparr>;
            points = pointsOf lib (perspectiveMesh (cube s2));
            s3 = dispatchEvent (CustomEvent ''canvas.drawn'' (Drawn ''cuboid'' (imageID s2) points)) s2
        in dispatchEvent (CustomEvent ''canvas.canceled'' NoDetail) s3)"

text \<open>
  \<^verbatim>\<open>notify\<close> of the view for the reason IMAGE_CHANGED. \<^verbatim>\<open>clearScene\<close> empties the children
  of the four scenes. \<^verbatim>\<open>loader.load(objectURL, addScene)\<close> starts the decode and comes
  back: \<^verbatim>\<open>addScene\<close> is called when the decode has ended, which \<open>loading\<close> counts. The
  object URL is made before and revoked after the call of the loader; of the two calls
  the model keeps the place in the sequence. Each step adds itself to \<open>calls\<close>.
\<close>

definition createObjectURL :: "Canvas3dViewImpl \<Rightarrow> Canvas3dViewImpl" where
  "createObjectURL s = s\<lparr>calls := calls s @ [CreateObjectURL]\<rparr>"

definition clearScene :: "Canvas3dViewImpl \<Rightarrow> Canvas3dViewImpl" where
  "clearScene s =
     s\<lparr>views := (\<lambda>v. (views s v)\<lparr>scene := \<lparr>cloud = False, plane = None\<rparr>\<rparr>),
       calls := calls s @ [ClearScene]\<rparr>"

definition loader_load :: "Canvas3dViewImpl \<Rightarrow> Canvas3dViewImpl" where
  "loader_load s = s\<lparr>loading := Suc (loading s), calls := calls s @ [LoaderLoad]\<rparr>"

definition revokeObjectURL :: "Canvas3dViewImpl \<Rightarrow> Canvas3dViewImpl" where
  "revokeObjectURL s = s\<lparr>calls := calls s @ [RevokeObjectURL]\<rparr>"

definition notify_IMAGE_CHANGED :: "Canvas3dViewImpl \<Rightarrow> Canvas3dViewImpl" where
  "notify_IMAGE_CHANGED s =
     (if \<not> image s then s
      else
        let s1 = createObjectURL s;
            s2 = clearScene s1;
            s3 = loader_load s2;
            s4 = revokeObjectURL s3
        in dispatchEvent (CustomEvent ''canvas.setup'' NoDetail) s4)"

text \<open>
  \<^verbatim>\<open>render\<close>, for one view and the ray casts of the frame: the part that drives a gesture.
  Fitting the renderer to its container, the update of the controls, the drawing of the
  scene and the hover highlighting of the perspective view are not modelled.
\<close>

definition renderView :: "Library \<Rightarrow> ViewType \<Rightarrow> RayCasts \<Rightarrow> Canvas3dViewImpl \<Rightarrow> error + Canvas3dViewImpl" where
  "renderView lib view rays s =
     (if activeElement_clientID s \<noteq> None \<and> view \<noteq> PERSPECTIVE then
        if scan (action s) = Some view then
          andThen
            (if \<not> (translation_status (action s) \<or> resize_status (action s)
                    \<or> rotation_status (action s))
             then initiateAction lib view rays s
             else Inr s)
            (\<lambda>s1. if detected (action s1) then
                     if translation_status (action s1) then renderTranslateAction view rays s1
                     else if resize_status (action s1) then renderResizeAction lib view rays s1
                     else renderRotateAction lib view s1
                   else Inr s1)
        else Inr s
      else Inr s)"

section \<open>Example values\<close>

text \<open>The action record that the constructor of the view creates.\<close>

definition initialAction :: Action where
  "initialAction =
     \<lparr>scan = None, detected = False, initialMouseVector = Vector2 0 0,
      translation_status = False, translation_helper = None, translation_coordinates = None,
      rotation_status = False, rotation_helper = None,
      rotation_screenInit = Some (Vector2 0 0), rotation_screenMove = Some (Vector2 0 0),
      resize_status = False, resize_helper = None,
      resize_initScales = Vector3 1 1 1, resize_memScales = Vector3 1 1 1,
      resize_resizeVector = Vector3 0 0 0\<rparr>"

text \<open>
  A stand-in for the library, for running the model on examples: the theorems below hold
  for every library.
\<close>

definition exampleLibrary :: Library where
  "exampleLibrary =
     \<lparr>eulerOf = (\<lambda>r. Vector3 0 0 0),
      setFromSpherical = (\<lambda>v. v),
      localToWorld = (\<lambda>m v. v),
      attach = (\<lambda>p c. c),
      worldQuaternion = (\<lambda>p c. rotation c),
      lookAt = (\<lambda>m t. rotation m),
      getReferenceCoordinates = (\<lambda>c v. position (mesh c v)),
      Number = (\<lambda>n. if n = ''7'' then Some 7 else None)\<rparr>"

text \<open>
  One cuboid, with clientID 7, at (1, 2, 3), of scale (1, 1, 1) and not rotated; it is
  selected. Each canvas is 200 by 100 pixels at the origin of the page.
\<close>

definition exampleMesh :: Object3D where
  "exampleMesh =
     \<lparr>name = ''7'', position = Vector3 1 2 3, scale = Vector3 1 1 1,
      rotation = Euler (Vector3 0 0 0), parent = None\<rparr>"

definition exampleObject :: ObjectState where
  "exampleObject =
     \<lparr>clientID = 7, lock = False, hidden = False,
      points = [1, 2, 3, 0, 0, 0, 1, 1, 1, 0, 0, 0, 0, 0, 0, 0]\<rparr>"

definition exampleCuboid :: CuboidModel where
  "exampleCuboid =
     \<lparr>perspectiveMesh = exampleMesh, topMesh = exampleMesh, sideMesh = exampleMesh,
      frontMesh = exampleMesh, userData = Some exampleObject\<rparr>"

definition examplePlane :: Object3D where
  "examplePlane =
     \<lparr>name = ''plane'', position = Vector3 1 2 3, scale = Vector3 1 1 1,
      rotation = Euler (Vector3 0 0 0), parent = None\<rparr>"

definition exampleView :: "ViewType \<Rightarrow> RenderView" where
  "exampleView v =
     \<lparr>domElement = \<lparr>rect_left = 0, rect_top = 0, clientWidth = 200, clientHeight = 100,
                    offsetLeft = 0, offsetTop = 0, offsetWidth = 200, offsetHeight = 100\<rparr>,
      scene = \<lparr>cloud = True, plane = (if v = PERSPECTIVE then None else Some examplePlane)\<rparr>,
      camera = \<lparr>name = ''camera'', position = Vector3 0 0 5, scale = Vector3 1 1 1,
                rotation = Euler (Vector3 0 0 0), parent = None\<rparr>,
      controls_enabled = (v = PERSPECTIVE),
      mouseVector = Vector2 0 0\<rparr>"

definition exampleState :: Canvas3dViewImpl where
  "exampleState =
     \<lparr>controller_mode = Mode3d.IDLE, drawData_enabled = False,
      activeElement_clientID = Some ''7'', imageID = Some 0, image = True,
      objects = [exampleObject], selected = Some exampleCuboid,
      cube = exampleCuboid\<lparr>userData := None\<rparr>,
      action = initialAction, views = exampleView, dispatched = [], loading = 0,
      calls = []\<rparr>"

text \<open>
  Ray casts: the three hits as given, and one intersection with the reference plane, at
  (4, 5, 3).
\<close>

definition exampleRays :: "bool \<Rightarrow> bool \<Rightarrow> bool \<Rightarrow> RayCasts" where
  "exampleRays r t b =
     \<lparr>resizeHelpers_hit = r, rotationHelper_hit = t, box_hit = b,
      plane_intersects = [\<lparr>point = Vector3 4 5 3, object = examplePlane\<rparr>]\<rparr>"

text \<open>
  A resize gesture in the top view: the pointer goes down at pixel (150, 25), which is
  (0.5, 0.5) in normalized device coordinates, a frame finds a resize handle under it,
  the pointer moves to pixel (100, 25), on the vertical centre line of the canvas, and a
  frame is rendered.
\<close>

definition resizeToCentreLine :: "error + Canvas3dViewImpl" where
  "resizeToCentreLine =
     andThen (startAction TOP \<lparr>clientX = 150, clientY = 25\<rparr> exampleState)
       (\<lambda>s1. andThen (renderView exampleLibrary TOP (exampleRays True False False) s1)
       (\<lambda>s2. andThen (moveAction TOP \<lparr>clientX = 100, clientY = 25\<rparr> s2)
       (\<lambda>s3. renderView exampleLibrary TOP (exampleRays False False False) s3)))"

text \<open>
  The states of a gesture in progress in a view, the pointer having gone down at pixel
  (150, 25) and moved to pixel (175, 10): (0.75, 0.8) in normalized device coordinates.
  In \<open>resizingFromCentreLine\<close> the resize gesture of the top view started on the vertical
  centre line, at (0, 0.5), and the pointer is at (-0.5, 0.8).
\<close>

definition resizing :: "ViewType \<Rightarrow> Canvas3dViewImpl" where
  "resizing v =
     exampleState
       \<lparr>action := initialAction
          \<lparr>scan := Some v, detected := True, resize_status := True,
           resize_helper := Some (Vector2 (1 / 2) (1 / 2)),
           rotation_screenInit := Some (Vector2 150 25),
           rotation_screenMove := Some (Vector2 175 10)\<rparr>,
        views := (\<lambda>w. (exampleView w)\<lparr>mouseVector := Vector2 (3 / 4) (4 / 5),
                                         controls_enabled := False\<rparr>)\<rparr>"

definition resizingFromCentreLine :: Canvas3dViewImpl where
  "resizingFromCentreLine =
     exampleState
       \<lparr>action := initialAction
          \<lparr>scan := Some TOP, detected := True, resize_status := True,
           resize_helper := Some (Vector2 0 (1 / 2)),
           rotation_screenInit := Some (Vector2 100 25),
           rotation_screenMove := Some (Vector2 50 10)\<rparr>,
        views := (\<lambda>w. (exampleView w)\<lparr>mouseVector := Vector2 (- 1 / 2) (4 / 5),
                                         controls_enabled := False\<rparr>)\<rparr>"

definition translating :: "ViewType \<Rightarrow> Canvas3dViewImpl" where
  "translating v =
     exampleState
       \<lparr>action := initialAction
          \<lparr>scan := Some v, detected := True, translation_status := True,
           translation_helper := Some (Vector2 (1 / 2) (1 / 2)),
           rotation_screenInit := Some (Vector2 150 25),
           rotation_screenMove := Some (Vector2 175 10)\<rparr>,
        views := (\<lambda>w. (exampleView w)\<lparr>mouseVector := Vector2 (3 / 4) (4 / 5),
                                         controls_enabled := False\<rparr>)\<rparr>"

definition scanning :: "ViewType \<Rightarrow> Canvas3dViewImpl" where
  "scanning v = exampleState\<lparr>action := initialAction\<lparr>scan := Some v\<rparr>\<rparr>"

definition locked :: Canvas3dViewImpl where
  "locked = exampleState\<lparr>selected := Some (exampleCuboid\<lparr>userData := Some (exampleObject\<lparr>lock := True\<rparr>)\<rparr>)\<rparr>"

text \<open>
  The page with the canvases 300 pixels from the left edge of the viewport, each at the
  origin of its own container: the bounding rectangle starts at 300, \<^verbatim>\<open>offsetLeft\<close> is 0.
\<close>

definition pageState :: Canvas3dViewImpl where
  "pageState =
     exampleState
       \<lparr>views := (\<lambda>v. (exampleView v)
                    \<lparr>domElement := (domElement (exampleView v))\<lparr>rect_left := 300\<rparr>\<rparr>)\<rparr>"

text \<open>
  A rotate gesture in the side view of a state whose canvases start at \<open>left\<close>: the pointer
  goes down 150 pixels right of and 25 below the corner of the canvas, a frame finds the
  rotation handle under it, the pointer moves to 190 right of and 10 below the corner,
  and a frame is rendered.
\<close>

definition rotateGesture :: "Canvas3dViewImpl \<Rightarrow> real \<Rightarrow> error + Canvas3dViewImpl" where
  "rotateGesture s left =
     andThen (startAction SIDE \<lparr>clientX = left + 150, clientY = 25\<rparr> s)
       (\<lambda>s1. andThen (renderView exampleLibrary SIDE (exampleRays False True False) s1)
       (\<lambda>s2. andThen (moveAction SIDE \<lparr>clientX = left + 190, clientY = 10\<rparr> s2)
       (\<lambda>s3. renderView exampleLibrary SIDE (exampleRays False False False) s3)))"

definition drawing :: Canvas3dViewImpl where
  "drawing = exampleState\<lparr>controller_mode := Mode3d.DRAW, drawData_enabled := True,
                          selected := None, activeElement_clientID := None\<rparr>"

section \<open>Lemmas\<close>

lemma andThen_Inr [simp]: "andThen (Inr a) f = f a"
  by (simp add: andThen_def)

lemma andThen_Inl [simp]: "andThen (Inl e) f = Inl e"
  by (simp add: andThen_def)

lemma andThen_eq_Inr: "andThen r f = Inr b \<Longrightarrow> \<exists>a. r = Inr a \<and> f a = Inr b"
  by (cases r) simp_all

lemmas example_defs = exampleState_def exampleView_def exampleCuboid_def exampleMesh_def
  exampleObject_def exampleLibrary_def initialAction_def exampleRays_def examplePlane_def
  resizing_def resizingFromCentreLine_def translating_def drawing_def scanning_def locked_def
  pageState_def

lemmas gesture_defs = startAction_def moveAction_def renderView_def initiateAction_def
  renderResizeAction_def moveObject_def adjustPerspectiveCameras_def updateView_def
  disableControls_def pointerVector_def selectable_def setScale_def eachMesh_def
  setCameraPosition_def Let_def

lemma mesh_eachMesh [simp]: "mesh (eachMesh f c) v = f (mesh c v)"
  by (cases v) (simp_all add: eachMesh_def)

lemma mesh_setScale [simp]: "mesh (setScale x y z c) v = (mesh c v)\<lparr>scale := Vector3 x y z\<rparr>"
  by (simp add: setScale_def)

subsection \<open>What the camera and plane operations leave alone\<close>

lemma adjustPerspectiveCameras_selected:
  "selected s = Some c \<Longrightarrow>
   \<exists>s'. adjustPerspectiveCameras lib s = Inr s' \<and> selected s' = Some c
        \<and> action s' = action s \<and> dispatched s' = dispatched s"
  by (simp add: adjustPerspectiveCameras_def updateView_def)

lemma attachCamera_Inr:
  "selected s = Some c \<Longrightarrow>
   \<exists>s'. attachCamera lib view s = Inr s' \<and> action s' = action s
      \<and> selected s' = selected s
      \<and> (\<forall>v. controls_enabled (views s' v) = controls_enabled (views s v))"
  by (cases view) (auto simp: attachCamera_def attachTo_def updateView_def)

lemma disableControls_simps:
  "action (disableControls s) = action s"
  "selected (disableControls s) = selected s"
  "\<not> controls_enabled (views (disableControls s) TOP)"
  "\<not> controls_enabled (views (disableControls s) SIDE)"
  "\<not> controls_enabled (views (disableControls s) FRONT)"
  by (simp_all add: disableControls_def updateView_def)

lemma detachOrbiting_dispatched:
  "detachOrbiting lib p target v s = Inr s' \<Longrightarrow>
   dispatched s' = dispatched s \<and> selected s' = selected s"
  by (auto simp: detachOrbiting_def Let_def updateView_def split: if_splits)

lemma detachTop_dispatched:
  "dispatched (detachTop lib p target s) = dispatched s"
  "selected (detachTop lib p target s) = selected s"
  by (simp_all add: detachTop_def Let_def updateView_def)

lemma placeLooking_dispatched:
  "dispatched (placeLooking lib p target a v s) = dispatched s"
  "selected (placeLooking lib p target a v s) = selected s"
  by (simp_all add: placeLooking_def Let_def updateView_def)

lemma detachCamera_dispatched:
  assumes "detachCamera lib view s = Inr s'"
  shows "dispatched s' = dispatched s \<and> selected s' = selected s"
proof (cases "selected s")
  case None
  then show ?thesis using assms by (simp add: detachCamera_def)
next
  case (Some c)
  show ?thesis
  proof (cases view)
    case PERSPECTIVE
    then show ?thesis
      using assms Some
      by (auto simp: detachCamera_def Let_def updateView_def placeLooking_dispatched
          split: option.splits)
  next
    case TOP
    then show ?thesis
      using assms Some
      by (auto simp: detachCamera_def Let_def dest!: andThen_eq_Inr detachOrbiting_dispatched)
  next
    case SIDE
    then show ?thesis
      using assms Some
      by (auto simp: detachCamera_def Let_def detachTop_dispatched
          dest!: andThen_eq_Inr detachOrbiting_dispatched)
  next
    case FRONT
    then show ?thesis
      using assms Some
      by (auto simp: detachCamera_def Let_def detachTop_dispatched
          dest!: andThen_eq_Inr detachOrbiting_dispatched)
  qed
qed

lemma translateReferencePlane_dispatched:
  "dispatched (translateReferencePlane p s) = dispatched s"
  by (simp add: translateReferencePlane_def updateView_def)

subsection \<open>The event of a committed gesture\<close>

lemma resetActions_dispatched:
  assumes det: "detected (action s)" and run: "resetActions lib s = Inr s'"
  shows "\<exists>sc c st. scan (action s) = Some sc \<and> selected s = Some c
     \<and> dispatched s' = dispatched s @ [CustomEvent ''canvas.edited'' (Edited st (pointsOf lib (mesh c sc)))]"
proof -
  obtain sc where sc: "scan (action s) = Some sc"
    using det run by (cases "scan (action s)") (simp_all add: resetActions_def)
  obtain c where c: "selected s = Some c"
    using det run sc by (cases "selected s") (simp_all add: resetActions_def)
  define st where "st = (case filter (\<lambda>st. Some (ObjectState.clientID st) = Number lib (name (mesh c sc)))
                                 (objects s) of [] \<Rightarrow> None | st # _ \<Rightarrow> Some st)"
  define s1 where "s1 = dispatchEvent (CustomEvent ''canvas.edited'' (Edited st (pointsOf lib (mesh c sc)))) s"
  have d1: "dispatched s1 = dispatched s @ [CustomEvent ''canvas.edited'' (Edited st (pointsOf lib (mesh c sc)))]"
    and sel1: "selected s1 = Some c"
    using c by (simp_all add: s1_def dispatchEvent_def)
  have eq: "resetActions lib s =
      andThen (if rotation_status (action s1) then detachCamera lib sc s1 else Inr s1)
        (\<lambda>s2. andThen (adjustPerspectiveCameras lib s2)
           (\<lambda>s3. Inr ((translateReferencePlane (position (mesh c sc)) s3)
               \<lparr>action := (action (translateReferencePlane (position (mesh c sc)) s3))
                  \<lparr>scan := None, detected := False, translation_status := False,
                   translation_helper := None, translation_coordinates := None,
                   rotation_status := False, rotation_helper := None,
                   rotation_screenInit := None, rotation_screenMove := None,
                   resize_status := False, resize_helper := None\<rparr>\<rparr>)))"
    using det sc c by (simp add: resetActions_def Let_def s1_def st_def)
  from run [unfolded eq] obtain s2 where
    s2: "(if rotation_status (action s1) then detachCamera lib sc s1 else Inr s1) = Inr s2"
    and rest: "andThen (adjustPerspectiveCameras lib s2)
           (\<lambda>s3. Inr ((translateReferencePlane (position (mesh c sc)) s3)
               \<lparr>action := (action (translateReferencePlane (position (mesh c sc)) s3))
                  \<lparr>scan := None, detected := False, translation_status := False,
                   translation_helper := None, translation_coordinates := None,
                   rotation_status := False, rotation_helper := None,
                   rotation_screenInit := None, rotation_screenMove := None,
                   resize_status := False, resize_helper := None\<rparr>\<rparr>)) = Inr s'"
    by (blast dest: andThen_eq_Inr)
  from rest obtain s3 where
    s3: "adjustPerspectiveCameras lib s2 = Inr s3"
    and s': "s' = (translateReferencePlane (position (mesh c sc)) s3)
               \<lparr>action := (action (translateReferencePlane (position (mesh c sc)) s3))
                  \<lparr>scan := None, detected := False, translation_status := False,
                   translation_helper := None, translation_coordinates := None,
                   rotation_status := False, rotation_helper := None,
                   rotation_screenInit := None, rotation_screenMove := None,
                   resize_status := False, resize_helper := None\<rparr>\<rparr>"
    by (auto dest!: andThen_eq_Inr)
  have d2: "dispatched s2 = dispatched s1" and sel2: "selected s2 = Some c"
    using s2 sel1 detachCamera_dispatched [of lib sc s1 s2] by (auto split: if_splits)
  have d3: "dispatched s3 = dispatched s2"
    using adjustPerspectiveCameras_selected [OF sel2, of lib] s3 by auto
  have "dispatched s' = dispatched s1"
    using s' d2 d3 by (simp add: translateReferencePlane_dispatched)
  then show ?thesis
    using sc c d1 by auto
qed

subsection \<open>The scales after a resize step\<close>




section \<open>The claims\<close>

text \<open>
  C1 (the code departs from the claim). The claim: a resize step never leaves a zero or
  negative scale. The code replaces a negative scale by 0.2 and keeps every other value,
  zero and the values below 0.2 among them. In the gesture \<open>resizeToCentreLine\<close> the
  pointer reaches the vertical centre line of the top view, the quotient of the pointer
  coordinates is 0, and the width of all four meshes of the selected cuboid becomes 0.
\<close>

theorem resize_to_centre_line_scale_zero:
  "\<not> isl resizeToCentreLine
   \<and> selected (projr resizeToCentreLine) \<noteq> None
   \<and> scale (perspectiveMesh (the (selected (projr resizeToCentreLine)))) = Vector3 0 1 1
   \<and> scale (topMesh (the (selected (projr resizeToCentreLine)))) = Vector3 0 1 1
   \<and> scale (sideMesh (the (selected (projr resizeToCentreLine)))) = Vector3 0 1 1
   \<and> scale (frontMesh (the (selected (projr resizeToCentreLine)))) = Vector3 0 1 1"
  by (simp add: resizeToCentreLine_def example_defs gesture_defs resizedScale_def
      jsProduct_def jsQuotient_def)

text \<open>
  C2. With an object selected, \<open>initiateAction\<close> returns, and the first of the three ray
  casts that hits decides: a hit on a resize handle starts RESIZE whatever the other two
  casts give, else a hit on the rotation handle starts ROTATE, else a hit on the body
  starts TRANSLATE, else nothing changes. In each of the three branches that start a
  gesture, \<open>detected\<close> is set, the status of the other two gestures is as before, and the
  controls of the top, side and front views are disabled.
\<close>

theorem initiateAction_priority:
  assumes sel: "selected s = Some c"
  shows
  "(\<exists>s'. initiateAction lib view rays s = Inr s'
     \<and> (if resizeHelpers_hit rays then
          resize_status (action s') \<and> detected (action s')
          \<and> rotation_status (action s') = rotation_status (action s)
          \<and> translation_status (action s') = translation_status (action s)
          \<and> \<not> controls_enabled (views s' TOP) \<and> \<not> controls_enabled (views s' SIDE)
          \<and> \<not> controls_enabled (views s' FRONT)
        else if rotationHelper_hit rays then
          rotation_status (action s') \<and> detected (action s')
          \<and> resize_status (action s') = resize_status (action s)
          \<and> translation_status (action s') = translation_status (action s)
          \<and> \<not> controls_enabled (views s' TOP) \<and> \<not> controls_enabled (views s' SIDE)
          \<and> \<not> controls_enabled (views s' FRONT)
        else if box_hit rays then
          translation_status (action s') \<and> detected (action s')
          \<and> resize_status (action s') = resize_status (action s)
          \<and> rotation_status (action s') = rotation_status (action s)
          \<and> \<not> controls_enabled (views s' TOP) \<and> \<not> controls_enabled (views s' SIDE)
          \<and> \<not> controls_enabled (views s' FRONT)
        else s' = s))"
proof (cases "resizeHelpers_hit rays")
  case True
  then show ?thesis
    using sel by (simp add: initiateAction_def disableControls_simps)
next
  case noResize: False
  show ?thesis
  proof (cases "rotationHelper_hit rays")
    case True
    let ?s1 = "disableControls
                 (s\<lparr>action := (action s)
                    \<lparr>rotation_helper := Some (mouseVector (views s view)),
                     rotation_status := True, detected := True\<rparr>\<rparr>)"
    have "selected ?s1 = Some c"
      using sel by (simp add: disableControls_simps)
    from attachCamera_Inr [OF this, of lib view]
    obtain s' where s': "attachCamera lib view ?s1 = Inr s'" "action s' = action ?s1"
      "\<forall>v. controls_enabled (views s' v) = controls_enabled (views ?s1 v)"
      by blast
    have "initiateAction lib view rays s = Inr s'"
      using sel noResize True s'(1) by (simp add: initiateAction_def)
    then show ?thesis
      using noResize True s'(2,3) by (simp add: disableControls_simps)
  next
    case False
    then show ?thesis
      using sel noResize by (simp add: initiateAction_def disableControls_simps)
  qed
qed

theorem initiateAction_priority_witness:
  "selected exampleState = Some exampleCuboid
   \<and> (\<exists>s'. initiateAction exampleLibrary TOP (exampleRays True True True) exampleState = Inr s'
        \<and> resize_status (action s') \<and> detected (action s')
        \<and> \<not> rotation_status (action s') \<and> \<not> translation_status (action s')
        \<and> \<not> controls_enabled (views s' TOP) \<and> \<not> controls_enabled (views s' SIDE)
        \<and> \<not> controls_enabled (views s' FRONT))
   \<and> (\<exists>s'. initiateAction exampleLibrary SIDE (exampleRays False True True) exampleState = Inr s'
        \<and> rotation_status (action s') \<and> detected (action s')
        \<and> \<not> resize_status (action s') \<and> \<not> translation_status (action s')
        \<and> \<not> controls_enabled (views s' TOP) \<and> \<not> controls_enabled (views s' SIDE)
        \<and> \<not> controls_enabled (views s' FRONT))
   \<and> (\<exists>s'. initiateAction exampleLibrary FRONT (exampleRays False False True) exampleState = Inr s'
        \<and> translation_status (action s') \<and> detected (action s')
        \<and> \<not> resize_status (action s') \<and> \<not> rotation_status (action s')
        \<and> \<not> controls_enabled (views s' TOP) \<and> \<not> controls_enabled (views s' SIDE)
        \<and> \<not> controls_enabled (views s' FRONT))"
proof -
  have sel: "selected exampleState = Some exampleCuboid"
    by (simp add: exampleState_def)
  have act: "\<not> resize_status (action exampleState)" "\<not> rotation_status (action exampleState)"
    "\<not> translation_status (action exampleState)"
    by (simp_all add: exampleState_def initialAction_def)
  show ?thesis
    using sel act
      initiateAction_priority [OF sel, of exampleLibrary TOP "exampleRays True True True"]
      initiateAction_priority [OF sel, of exampleLibrary SIDE "exampleRays False True True"]
      initiateAction_priority [OF sel, of exampleLibrary FRONT "exampleRays False False True"]
    by (simp add: exampleRays_def)
qed

text \<open>
  C3. A translate step in a view whose reference plane the ray meets, with an object
  selected, returns, and the position of each of the four meshes of the selected cuboid
  (perspective, top, side, front) is the point of the first intersection.
\<close>

theorem renderTranslateAction_moves_all:
  "plane (scene (views s view)) \<noteq> None \<Longrightarrow> selected s \<noteq> None \<Longrightarrow>
   plane_intersects rays = i # rest \<Longrightarrow>
   \<exists>s' c'. renderTranslateAction view rays s = Inr s' \<and> selected s' = Some c'
     \<and> position (perspectiveMesh c') = point i \<and> position (topMesh c') = point i
     \<and> position (sideMesh c') = point i \<and> position (frontMesh c') = point i"
  by (auto simp: renderTranslateAction_def moveObject_def eachMesh_def split: option.splits)

theorem renderTranslateAction_moves_all_witness:
  "plane (scene (views (translating SIDE) SIDE)) \<noteq> None
   \<and> selected (translating SIDE) \<noteq> None
   \<and> plane_intersects (exampleRays False False False)
       = [\<lparr>point = Vector3 4 5 3, object = examplePlane\<rparr>]
   \<and> (\<exists>s' c'. renderTranslateAction SIDE (exampleRays False False False) (translating SIDE) = Inr s'
        \<and> selected s' = Some c'
        \<and> position (perspectiveMesh c') = Vector3 4 5 3 \<and> position (topMesh c') = Vector3 4 5 3
        \<and> position (sideMesh c') = Vector3 4 5 3 \<and> position (frontMesh c') = Vector3 4 5 3)"
proof -
  have h: "plane (scene (views (translating SIDE) SIDE)) \<noteq> None"
    "selected (translating SIDE) \<noteq> None"
    "plane_intersects (exampleRays False False False)
       = \<lparr>point = Vector3 4 5 3, object = examplePlane\<rparr> # []"
    by (simp_all add: example_defs)
  show ?thesis
    using h renderTranslateAction_moves_all [OF h] by simp
qed

text \<open>
  C4, as amended. On IMAGE_CHANGED with an image present, the notification makes five
  calls in this order: the object URL is made, the four scenes are cleared, the load of
  the point cloud is started, the object URL is revoked, \<^verbatim>\<open>canvas.setup\<close> is dispatched.
  So the scenes are cleared before the load is started, and the event is dispatched in
  the same notification after the load has been started: at its end the four scenes are
  empty, the event is the last one dispatched, and the load is counted in \<open>loading\<close> as
  not completed. Without an image nothing happens.
\<close>

theorem notify_IMAGE_CHANGED_order:
  "(image s \<longrightarrow>
      calls (notify_IMAGE_CHANGED s) =
        calls s @ [CreateObjectURL, ClearScene, LoaderLoad, RevokeObjectURL,
                   DispatchEvent (CustomEvent ''canvas.setup'' NoDetail)]
      \<and> (\<forall>v. scene (views (notify_IMAGE_CHANGED s) v) = \<lparr>cloud = False, plane = None\<rparr>)
      \<and> loading (notify_IMAGE_CHANGED s) = Suc (loading s)
      \<and> dispatched (notify_IMAGE_CHANGED s)
          = dispatched s @ [CustomEvent ''canvas.setup'' NoDetail])
   \<and> (\<not> image s \<longrightarrow> notify_IMAGE_CHANGED s = s)"
  by (simp add: notify_IMAGE_CHANGED_def Let_def createObjectURL_def clearScene_def
      loader_load_def revokeObjectURL_def dispatchEvent_def)

theorem notify_IMAGE_CHANGED_order_witness:
  "image exampleState
   \<and> calls (notify_IMAGE_CHANGED exampleState) =
       [CreateObjectURL, ClearScene, LoaderLoad, RevokeObjectURL,
        DispatchEvent (CustomEvent ''canvas.setup'' NoDetail)]
   \<and> scene (views (notify_IMAGE_CHANGED exampleState) PERSPECTIVE) = \<lparr>cloud = False, plane = None\<rparr>
   \<and> scene (views (notify_IMAGE_CHANGED exampleState) TOP) = \<lparr>cloud = False, plane = None\<rparr>
   \<and> scene (views (notify_IMAGE_CHANGED exampleState) SIDE) = \<lparr>cloud = False, plane = None\<rparr>
   \<and> scene (views (notify_IMAGE_CHANGED exampleState) FRONT) = \<lparr>cloud = False, plane = None\<rparr>
   \<and> loading (notify_IMAGE_CHANGED exampleState) = Suc (loading exampleState)
   \<and> notify_IMAGE_CHANGED (exampleState\<lparr>image := False\<rparr>) = exampleState\<lparr>image := False\<rparr>"
proof -
  have h: "image exampleState" "\<not> image (exampleState\<lparr>image := False\<rparr>)"
    "calls exampleState = []"
    by (simp_all add: exampleState_def)
  show ?thesis
    using h notify_IMAGE_CHANGED_order [of exampleState]
      notify_IMAGE_CHANGED_order [of "exampleState\<lparr>image := False\<rparr>"]
    by simp
qed

text \<open>
  C4, the claim as stated fails: it has \<^verbatim>\<open>canvas.setup\<close> emitted only after the load
  completes. In the example the event is the one event dispatched by the notification,
  and the load that the notification started has not completed.
\<close>

theorem setup_while_loading:
  "dispatched (notify_IMAGE_CHANGED exampleState) = [CustomEvent ''canvas.setup'' NoDetail]
   \<and> loading (notify_IMAGE_CHANGED exampleState) = 1"
  by (simp add: notify_IMAGE_CHANGED_def Let_def createObjectURL_def clearScene_def
      loader_load_def revokeObjectURL_def dispatchEvent_def exampleState_def)

text \<open>
  C5. In a mode other than IDLE, \<open>activate\<close> with a non-null clientID throws and the data,
  the active element among them, are as before the call. Otherwise (mode IDLE, or a null
  clientID) it returns, the active element holds the given clientID, and exactly one
  notification was made, with the reason SHAPE_ACTIVATED.
\<close>

theorem activate_busy_or_activated:
  "(mode d \<noteq> Mode.IDLE \<and> cid \<noteq> None \<longrightarrow>
      isl (activate cid aid d) \<and> snd (projl (activate cid aid d)) = d)
   \<and> (mode d = Mode.IDLE \<or> cid = None \<longrightarrow>
      \<not> isl (activate cid aid d)
      \<and> ActiveElement.clientID (activeElement (projr (activate cid aid d))) = cid
      \<and> notified (projr (activate cid aid d)) = notified d @ [SHAPE_ACTIVATED])"
  by (auto simp: activate_def notify_def)

theorem activate_busy_or_activated_witness:
  "isl (activate (Some 7) None
          \<lparr>activeElement = \<lparr>ActiveElement.clientID = Some 3, attributeID = None\<rparr>,
           mode = Mode.DRAW, notified = []\<rparr>)
   \<and> snd (projl (activate (Some 7) None
          \<lparr>activeElement = \<lparr>ActiveElement.clientID = Some 3, attributeID = None\<rparr>,
           mode = Mode.DRAW, notified = []\<rparr>))
       = \<lparr>activeElement = \<lparr>ActiveElement.clientID = Some 3, attributeID = None\<rparr>,
          mode = Mode.DRAW, notified = []\<rparr>
   \<and> \<not> isl (activate (Some 7) None
          \<lparr>activeElement = \<lparr>ActiveElement.clientID = Some 3, attributeID = None\<rparr>,
           mode = Mode.IDLE, notified = []\<rparr>)
   \<and> ActiveElement.clientID (activeElement (projr (activate (Some 7) None
          \<lparr>activeElement = \<lparr>ActiveElement.clientID = Some 3, attributeID = None\<rparr>,
           mode = Mode.IDLE, notified = []\<rparr>))) = Some 7
   \<and> notified (projr (activate (Some 7) None
          \<lparr>activeElement = \<lparr>ActiveElement.clientID = Some 3, attributeID = None\<rparr>,
           mode = Mode.IDLE, notified = []\<rparr>)) = [SHAPE_ACTIVATED]
   \<and> \<not> isl (activate None None
          \<lparr>activeElement = \<lparr>ActiveElement.clientID = Some 3, attributeID = None\<rparr>,
           mode = Mode.DRAW, notified = []\<rparr>)
   \<and> ActiveElement.clientID (activeElement (projr (activate None None
          \<lparr>activeElement = \<lparr>ActiveElement.clientID = Some 3, attributeID = None\<rparr>,
           mode = Mode.DRAW, notified = []\<rparr>))) = None"
  using activate_busy_or_activated
    [of "\<lparr>activeElement = \<lparr>ActiveElement.clientID = Some 3, attributeID = None\<rparr>,
          mode = Mode.DRAW, notified = []\<rparr>" "Some 7" None]
    activate_busy_or_activated
    [of "\<lparr>activeElement = \<lparr>ActiveElement.clientID = Some 3, attributeID = None\<rparr>,
          mode = Mode.IDLE, notified = []\<rparr>" "Some 7" None]
    activate_busy_or_activated
    [of "\<lparr>activeElement = \<lparr>ActiveElement.clientID = Some 3, attributeID = None\<rparr>,
          mode = Mode.DRAW, notified = []\<rparr>" None None]
  by simp

text \<open>
  C6. \<open>startAction\<close> never throws. On a canvas with a client width and height other than
  0, as a canvas under the pointer has, it returns, and the \<open>scan\<close> field afterwards is
  the initiating view if an object is selected that is neither locked nor hidden; with no
  object selected, or a locked or a hidden one, \<open>scan\<close> is what it was, so \<^verbatim>\<open>null\<close> stays
  \<^verbatim>\<open>null\<close>.
\<close>

theorem startAction_scan:
  "startAction view event s \<noteq> Inl TypeError
   \<and> (\<forall>msg. startAction view event s \<noteq> Inl (Error msg))
   \<and> (clientWidth (domElement (views s view)) \<noteq> 0
        \<and> clientHeight (domElement (views s view)) \<noteq> 0 \<longrightarrow>
      \<not> isl (startAction view event s)
      \<and> scan (action (projr (startAction view event s))) =
          (case selected s of
             None \<Rightarrow> scan (action s)
           | Some c \<Rightarrow>
               (case userData c of
                  None \<Rightarrow> Some view
                | Some u \<Rightarrow> if lock u \<or> hidden u then scan (action s) else Some view)))"
  by (auto simp: startAction_def Let_def selectable_def updateView_def split: option.splits)

theorem startAction_scan_witness:
  "clientWidth (domElement (views exampleState TOP)) \<noteq> 0
   \<and> clientHeight (domElement (views exampleState TOP)) \<noteq> 0
   \<and> \<not> isl (startAction TOP \<lparr>clientX = 150, clientY = 25\<rparr> exampleState)
   \<and> scan (action (projr (startAction TOP \<lparr>clientX = 150, clientY = 25\<rparr> exampleState)))
       = Some TOP
   \<and> \<not> isl (startAction TOP \<lparr>clientX = 150, clientY = 25\<rparr> locked)
   \<and> scan (action (projr (startAction TOP \<lparr>clientX = 150, clientY = 25\<rparr> locked))) = None
   \<and> \<not> isl (startAction TOP \<lparr>clientX = 150, clientY = 25\<rparr> drawing)
   \<and> scan (action (projr (startAction TOP \<lparr>clientX = 150, clientY = 25\<rparr> drawing))) = None"
proof -
  have h: "clientWidth (domElement (views exampleState TOP)) \<noteq> 0"
    "clientHeight (domElement (views exampleState TOP)) \<noteq> 0"
    "clientWidth (domElement (views locked TOP)) \<noteq> 0"
    "clientHeight (domElement (views locked TOP)) \<noteq> 0"
    "clientWidth (domElement (views drawing TOP)) \<noteq> 0"
    "clientHeight (domElement (views drawing TOP)) \<noteq> 0"
    by (simp_all add: example_defs)
  have sel: "selected exampleState = Some exampleCuboid"
    "userData exampleCuboid = Some exampleObject"
    "\<not> lock exampleObject" "\<not> hidden exampleObject"
    "selected locked = Some (exampleCuboid\<lparr>userData := Some (exampleObject\<lparr>lock := True\<rparr>)\<rparr>)"
    "selected drawing = None"
    "scan (action locked) = None" "scan (action drawing) = None"
    by (simp_all add: example_defs)
  show ?thesis
    using h sel
      startAction_scan [of TOP "\<lparr>clientX = 150, clientY = 25\<rparr>" exampleState]
      startAction_scan [of TOP "\<lparr>clientX = 150, clientY = 25\<rparr>" locked]
      startAction_scan [of TOP "\<lparr>clientX = 150, clientY = 25\<rparr>" drawing]
    by simp
qed

text \<open>
  C7 (the code departs from the claim). The claim: the direction of a rotate step is
  decided by whether the pointer is left of the line from the centre of the canvas
  through the point where it went down. The code takes for the centre
  \<^verbatim>\<open>offsetLeft + offsetWidth / 2\<close> and \<^verbatim>\<open>offsetTop + offsetHeight / 2\<close>, a point in the
  coordinates of the container of the canvas, and tests it against pointer positions in
  the coordinates of the viewport (\<^verbatim>\<open>clientX\<close>, \<^verbatim>\<open>clientY\<close>); \<open>startAction\<close> converts the
  same positions with the bounding rectangle of the canvas.

  The same gesture in the side view, from 150 right of and 25 below the corner of the
  canvas to 190 right of and 10 below it, is run on two pages. The pointer is left of the
  line from the centre of the canvas in both. Where the canvas starts at the left edge of
  the viewport, the meshes are turned about Y by \<open>- pi / 80\<close>. Where it starts 300 pixels
  further right, at the origin of its container, the centre of the canvas is (400, 50) in
  the viewport, the code tests (100, 50), finds the pointer not left, and the meshes are
  turned by \<open>pi / 80\<close>, the other way.
\<close>

theorem rotate_direction_depends_on_page_position:
  "rect_left (domElement (views exampleState SIDE)) = 0
   \<and> offsetLeft (domElement (views exampleState SIDE)) = 0
   \<and> rect_left (domElement (views pageState SIDE)) = 300
   \<and> rect_top (domElement (views pageState SIDE)) = 0
   \<and> offsetLeft (domElement (views pageState SIDE)) = 0
   \<and> offsetTop (domElement (views pageState SIDE)) = 0
   \<and> offsetWidth (domElement (views pageState SIDE)) = 200
   \<and> offsetHeight (domElement (views pageState SIDE)) = 100
   \<and> isLeft (Vector2 100 50) (Vector2 150 25) (Vector2 190 10)
   \<and> isLeft (Vector2 400 50) (Vector2 450 25) (Vector2 490 10)
   \<and> \<not> isLeft (Vector2 100 50) (Vector2 450 25) (Vector2 490 10)
   \<and> \<not> isl (rotateGesture exampleState 0)
   \<and> selected (projr (rotateGesture exampleState 0)) \<noteq> None
   \<and> rotation (sideMesh (the (selected (projr (rotateGesture exampleState 0)))))
       = Rotated (Euler (Vector3 0 0 0)) AxisY (- (pi / 80))
   \<and> rotation (camera (views (projr (rotateGesture exampleState 0)) SIDE))
       = Rotated (Euler (Vector3 0 0 0)) AxisZ (- (pi / 80))
   \<and> \<not> isl (rotateGesture pageState 300)
   \<and> selected (projr (rotateGesture pageState 300)) \<noteq> None
   \<and> rotation (sideMesh (the (selected (projr (rotateGesture pageState 300)))))
       = Rotated (Euler (Vector3 0 0 0)) AxisY (pi / 80)
   \<and> rotation (camera (views (projr (rotateGesture pageState 300)) SIDE))
       = Rotated (Euler (Vector3 0 0 0)) AxisZ (pi / 80)"
  by (simp add: rotateGesture_def example_defs gesture_defs attachCamera_def attachTo_def
      renderRotateAction_def isLeft_def rotateCube_def rotateInstance_def rotateCamera_def
      rotatePlane_def turnPlane_def rotateOnAxis_def ROTATION_SPEED_def)




text \<open>
  C9, as amended. A double click in DRAW mode dispatches \<^verbatim>\<open>canvas.drawn\<close> and then
  \<^verbatim>\<open>canvas.canceled\<close>; a mouseup that commits a gesture dispatches one \<^verbatim>\<open>canvas.edited\<close>.
  The point array of either event has 16 elements: position, rotation and scale of the
  mesh, three each and in this order, and seven zeros. So the 9th element is the depth
  and the 10th to the 16th, the reserved slots, are zero.
\<close>

theorem emitted_points_layout:
  "(controller_mode s = Mode3d.DRAW \<longrightarrow>
      dispatched (dblclick lib s) =
        dispatched s @
          [CustomEvent ''canvas.drawn''
             (Drawn ''cuboid'' (imageID s) (pointsOf lib (perspectiveMesh (cube s)))),
           CustomEvent ''canvas.canceled'' NoDetail])
   \<and> (detected (action s) \<and> resetActions lib s = Inr s' \<longrightarrow>
      (\<exists>sc c st. scan (action s) = Some sc \<and> selected s = Some c
         \<and> dispatched s' =
             dispatched s @ [CustomEvent ''canvas.edited'' (Edited st (pointsOf lib (mesh c sc)))]))
   \<and> pointsOf lib m =
        [vx (position m), vy (position m), vz (position m),
         vx (rotationOf lib m), vy (rotationOf lib m), vz (rotationOf lib m),
         vx (scale m), vy (scale m), vz (scale m), 0, 0, 0, 0, 0, 0, 0]
   \<and> length (pointsOf lib m) = 16
   \<and> pointsOf lib m ! 8 = vz (scale m)
   \<and> drop 9 (pointsOf lib m) = [0, 0, 0, 0, 0, 0, 0]"
  using resetActions_dispatched [of s lib s']
  by (auto simp: dblclick_def Let_def dispatchEvent_def pointsOf_def)

theorem emitted_points_layout_witness:
  "controller_mode drawing = Mode3d.DRAW
   \<and> dispatched (dblclick exampleLibrary drawing) =
       [CustomEvent ''canvas.drawn''
          (Drawn ''cuboid'' (Some 0) (pointsOf exampleLibrary exampleMesh)),
        CustomEvent ''canvas.canceled'' NoDetail]
   \<and> detected (action (resizing TOP))
   \<and> \<not> isl (resetActions exampleLibrary (resizing TOP))
   \<and> dispatched (projr (resetActions exampleLibrary (resizing TOP))) =
       [CustomEvent ''canvas.edited''
          (Edited (Some exampleObject) (pointsOf exampleLibrary exampleMesh))]
   \<and> pointsOf exampleLibrary exampleMesh = [1, 2, 3, 0, 0, 0, 1, 1, 1, 0, 0, 0, 0, 0, 0, 0]"
proof -
  have h: "controller_mode drawing = Mode3d.DRAW" "detected (action (resizing TOP))"
    "dispatched drawing = []" "imageID drawing = Some 0"
    "perspectiveMesh (cube drawing) = exampleMesh"
    by (simp_all add: example_defs)
  have run: "\<not> isl (resetActions exampleLibrary (resizing TOP))"
    and ev: "dispatched (projr (resetActions exampleLibrary (resizing TOP))) =
       [CustomEvent ''canvas.edited''
          (Edited (Some exampleObject) (pointsOf exampleLibrary exampleMesh))]"
    by (simp_all add: resetActions_def Let_def dispatchEvent_def adjustPerspectiveCameras_def
        translateReferencePlane_def updateView_def example_defs)
  have pts: "pointsOf exampleLibrary exampleMesh = [1, 2, 3, 0, 0, 0, 1, 1, 1, 0, 0, 0, 0, 0, 0, 0]"
    using emitted_points_layout [of drawing exampleLibrary drawing exampleMesh]
    by (simp add: exampleMesh_def rotationOf_def eulerAngles_def)
  show ?thesis
    using h run ev pts
      emitted_points_layout [of drawing exampleLibrary drawing exampleMesh]
    by simp
qed

text \<open>
  C9, the claim as stated fails: it has the 9th to the 16th element of the points of
  \<^verbatim>\<open>canvas.drawn\<close> zero. The 9th element is the depth of the cuboid drawn, 1 in the example.
\<close>

theorem drawn_ninth_element:
  "dispatched (dblclick exampleLibrary drawing) =
     [CustomEvent ''canvas.drawn''
        (Drawn ''cuboid'' (Some 0) [1, 2, 3, 0, 0, 0, 1, 1, 1, 0, 0, 0, 0, 0, 0, 0]),
      CustomEvent ''canvas.canceled'' NoDetail]
   \<and> [1, 2, 3, 0, 0, 0, 1, 1, 1, 0, 0, 0, 0, 0, 0, 0 :: real] ! 8 = 1"
  by (simp add: dblclick_def Let_def dispatchEvent_def pointsOf_def rotationOf_def eulerAngles_def example_defs)

text \<open>
  C10. A mouseup while no gesture is detected changes nothing: \<open>resetActions\<close> returns the
  state it was given, with the events dispatched, the cameras, the reference planes and
  the action record as they were.
\<close>

theorem resetActions_undetected:
  "\<not> detected (action s) \<Longrightarrow> resetActions lib s = Inr s"
  by (simp add: resetActions_def)

theorem resetActions_undetected_witness:
  "\<not> detected (action (scanning TOP))
   \<and> scan (action (scanning TOP)) = Some TOP
   \<and> resetActions exampleLibrary (scanning TOP) = Inr (scanning TOP)"
proof -
  have h: "\<not> detected (action (scanning TOP))"
    by (simp add: example_defs)
  show ?thesis
    using h resetActions_undetected [OF h, of exampleLibrary]
    by (simp add: example_defs)
qed

end
